theory Spec2Isabelle
  imports Complex_Main "HOL-Library.Sublist"
begin

section \<open>JavaScript values\<close>

text \<open>
  The values that reach the monitoring code come from parsed JSON (the request body, the
  telemetry reply) and from database rows. Numbers are modelled by the rationals: every
  finite double is one. \<open>NaN\<close> and the infinities cannot be written in JSON text or stored in
  a numeric column and are left out of \<open>jsval\<close>; \<open>NaN\<close> appears only as the result \<open>None\<close> of
  \<open>ToNumber\<close>. A string is the list of the bytes of its UTF-8 text; the texts compared
  or tested below are ASCII but for the signs that open the messages.
\<close>

datatype jsval = JUndefined | JNull | JBool bool | JNum rat | JStr string

text \<open>An object is a list of properties; reading an absent property gives \<open>undefined\<close>.\<close>

type_synonym js_object = "(string \<times> jsval) list"

definition js_get :: "js_object \<Rightarrow> string \<Rightarrow> jsval" where
  "js_get obj k = (case map_of obj k of None \<Rightarrow> JUndefined | Some v \<Rightarrow> v)"

text \<open>\<open>ToBoolean\<close>: what \<open>!x\<close> and \<open>x || y\<close> test.\<close>

fun truthy :: "jsval \<Rightarrow> bool" where
  "truthy JUndefined = False"
| "truthy JNull = False"
| "truthy (JBool b) = b"
| "truthy (JNum n) = (n \<noteq> 0)"
| "truthy (JStr s) = (s \<noteq> [])"

text \<open>Strict equality \<open>===\<close>: no conversion between types.\<close>

fun strict_eq :: "jsval \<Rightarrow> jsval \<Rightarrow> bool" where
  "strict_eq JUndefined JUndefined = True"
| "strict_eq JNull JNull = True"
| "strict_eq (JBool a) (JBool b) = (a = b)"
| "strict_eq (JNum a) (JNum b) = (a = b)"
| "strict_eq (JStr a) (JStr b) = (a = b)"
| "strict_eq _ _ = False"

text \<open>
  A template literal is kept as its pieces: the literal text and the substituted values,
  in order. The conversion of a number to its decimal text is not modelled.
\<close>

datatype piece = Lit string | Sub jsval

type_synonym template = "piece list"

section \<open>Effects\<close>

text \<open>
  Every call that leaves the process is recorded, in program order, in a list of effects.
  Console messages are recorded by their fixed text.
\<close>

record reminder =
  feeding_ID :: jsval
  pond_ID :: jsval
  reminder_time :: string
  message :: template
  acknowledged :: bool

record fcm_message =
  notification_title :: string
  notification_body :: template
  fcm_data :: "(string \<times> piece) list"
  topic :: string

text \<open>
  \<open>xs.join(sep)\<close> is kept as the list \<open>xs\<close>: the recipients of a mail are joined by
  a comma, the alerts of a mail or push body by a line break.
\<close>

record mail_options =
  mail_from :: jsval
  mail_to :: "jsval list"
  mail_subject :: string
  mail_text :: "template list"

record fcm_payload =
  push_to :: string
  push_title :: string
  push_body :: "template list"
  push_data_alerts :: "template list"

datatype effect =
    ConsoleLog string
  | ConsoleWarn string
  | ConsoleError string
  | DbQuery string "jsval list"
  | IoEmit string reminder
  | AdminSend fcm_message
  | HttpGet string
  | AbortRequest
  | SendMail mail_options
  | HttpPost string fcm_payload
  | Connect

datatype db_error = DbError string

section \<open>Feeding reminders (worker routes)\<close>

subsection \<open>The scan, once a minute\<close>

definition digit_char :: "nat \<Rightarrow> char" where
  "digit_char d = char_of (48 + d)"

fun toString_nat :: "nat \<Rightarrow> string" where
  "toString_nat n =
     (if n < 10 then [digit_char n] else toString_nat (n div 10) @ [digit_char (n mod 10)])"

definition padStart :: "nat \<Rightarrow> char \<Rightarrow> string \<Rightarrow> string" where
  "padStart n c s = replicate (n - length s) c @ s"

text \<open>\<open>currentTime\<close>: the hour and the minute of \<open>now\<close>, two digits each, seconds \<open>00\<close>.\<close>

definition currentTime :: "nat \<Rightarrow> nat \<Rightarrow> string" where
  "currentTime hours minutes =
     padStart 2 (CHR ''0'') (toString_nat hours) @ '':'' @
     padStart 2 (CHR ''0'') (toString_nat minutes) @ '':00''"

text \<open>The texts of the queries are kept without their line breaks and indentation.\<close>

definition feeding_sql :: string where
  "feeding_sql = ''SELECT feeding_ID, Pond_ID, feeding_time FROM feeding_schedule WHERE feeding_time BETWEEN ? AND ADDTIME(?, '' @ [CHR 0x27] @ ''00:15:00'' @ [CHR 0x27] @ '')''"

text \<open>\<open>reminders.some((rem) => rem.feeding_ID === row.feeding_ID)\<close>\<close>

definition reminder_exists :: "reminder list \<Rightarrow> js_object \<Rightarrow> bool" where
  "reminder_exists reminders row =
     list_ex (\<lambda>rem. strict_eq (feeding_ID rem) (js_get row ''feeding_ID'')) reminders"

definition new_reminder :: "string \<Rightarrow> js_object \<Rightarrow> reminder" where
  "new_reminder now row =
     \<lparr> feeding_ID = js_get row ''feeding_ID'',
       pond_ID = js_get row ''Pond_ID'',
       reminder_time = now,
       message = [Lit ''Feeding reminder: Pond '', Sub (js_get row ''Pond_ID''),
                  Lit '' needs feeding at '', Sub (js_get row ''feeding_time'')],
       acknowledged = False \<rparr>"

text \<open>
  The duplicate check and the \<open>reminders.push\<close> of the scan's loop body: the created
  reminder, if any, and the list afterwards.
\<close>

definition tryCreate :: "string \<Rightarrow> js_object \<Rightarrow> reminder list \<Rightarrow> reminder option \<times> reminder list" where
  "tryCreate now row reminders =
     (if reminder_exists reminders row then (None, reminders)
      else (Some (new_reminder now row), reminders @ [new_reminder now row]))"

text \<open>
  The push provider as the worker module sees it: whether Firebase Admin has an
  initialised app, and whether a send resolves (with the provider's answer) or rejects.
\<close>

datatype send_outcome = Resolves string | Rejects string

record push_world =
  admin_initialized :: bool
  admin_send :: "fcm_message \<Rightarrow> send_outcome"

definition or_empty :: "jsval \<Rightarrow> piece" where
  "or_empty v = Sub (if truthy v then v else JStr [])"

definition feeding_message :: "reminder \<Rightarrow> fcm_message" where
  "feeding_message r =
     \<lparr> notification_title = ''Feeding Reminder'',
       notification_body =
         (if message r \<noteq> [] then message r else [Lit ''Feeding needed at Pond '', Sub (pond_ID r)]),
       fcm_data = [(''feeding_ID'', or_empty (feeding_ID r)),
                   (''pond_ID'', or_empty (pond_ID r)),
                   (''reminder_time'', or_empty (JStr (reminder_time r)))],
       topic = ''feeding'' \<rparr>"

text \<open>
  \<open>sendFeedingPush\<close>, as far as it runs when it is called: the skip message, or the
  send. It then waits for the provider.
\<close>

definition sendFeedingPush :: "push_world \<Rightarrow> reminder \<Rightarrow> effect list" where
  "sendFeedingPush w r =
     (if \<not> admin_initialized w
      then [ConsoleWarn ''[FCM-worker] Firebase Admin not initialized; skipping feeding push'']
      else [AdminSend (feeding_message r)])"

text \<open>
  The rest of \<open>sendFeedingPush\<close>, run when the provider has answered a send: the
  answer is logged, a failure is caught and logged. Nothing is thrown.
\<close>

fun sendFeedingPush_settled :: "push_world \<Rightarrow> effect \<Rightarrow> effect list" where
  "sendFeedingPush_settled w (AdminSend m) =
     (case admin_send w m of
        Resolves resp \<Rightarrow> [ConsoleLog ''[FCM-worker] Feeding push sent:'']
      | Rejects err \<Rightarrow> [ConsoleError ''[FCM-worker] Error sending feeding push:''])"
| "sendFeedingPush_settled w e = []"

text \<open>
  What follows the creation of a reminder: the broadcast to the connected clients, then
  the push.
\<close>

definition dispatch_reminder :: "push_world \<Rightarrow> reminder \<Rightarrow> effect list" where
  "dispatch_reminder w r = IoEmit ''feeding-reminder'' r # sendFeedingPush w r"

text \<open>One row of the query's result: the body of \<open>results.forEach\<close>.\<close>

definition scan_row :: "push_world \<Rightarrow> string \<Rightarrow> reminder list \<times> effect list \<Rightarrow> js_object \<Rightarrow> reminder list \<times> effect list" where
  "scan_row w now st row =
     (case tryCreate now row (fst st) of
        (None, rs) \<Rightarrow> (rs, snd st)
      | (Some r, rs) \<Rightarrow>
          (rs, snd st @ [ConsoleLog ''Reminder created:''] @ dispatch_reminder w r))"

text \<open>
  One tick of the cron job: the query, then the loop over its rows. A failed query is
  logged and nothing else happens. The loop does not wait for the pushes it starts:
  their answers come when the loop is over, and are recorded after it in the order of
  the sends.
\<close>

definition feeding_scan :: "push_world \<Rightarrow> nat \<Rightarrow> nat \<Rightarrow> db_error + js_object list \<Rightarrow> reminder list \<Rightarrow> reminder list \<times> effect list" where
  "feeding_scan w hours minutes results reminders =
     (let now = currentTime hours minutes;
          q = DbQuery feeding_sql [JStr now, JStr now]
      in case results of
           Inl err \<Rightarrow> (reminders, [q, ConsoleError ''Error checking reminders:''])
         | Inr rows \<Rightarrow>
             (if length rows > 0
              then (let st = foldl (scan_row w now) (reminders, [q]) rows
                    in (fst st, snd st @ concat (map (sendFeedingPush_settled w) (snd st))))
              else (reminders, [q])))"

subsection \<open>Acknowledging a reminder\<close>

datatype body_value = BVal jsval | BText template

record response =
  status :: nat
  body :: "(string \<times> body_value) list"

text \<open>\<open>POST /acknowledge\<close>: the reminders afterwards and the response sent.\<close>

definition acknowledge :: "js_object \<Rightarrow> reminder list \<Rightarrow> reminder list \<times> response" where
  "acknowledge req_body reminders =
     (let fid = js_get req_body ''feeding_ID'' in
      if \<not> truthy fid
      then (reminders,
            \<lparr> status = 400, body = [(''error'', BVal (JStr ''feeding_ID is required''))] \<rparr>)
      else (filter (\<lambda>rem. \<not> strict_eq (feeding_ID rem) fid) reminders,
            \<lparr> status = 200,
              body = [(''success'', BVal (JBool True)),
                      (''message'', BText [Lit ''Reminder '', Sub fid, Lit '' acknowledged''])] \<rparr>))"

section \<open>Sensor telemetry (sensor routes)\<close>

subsection \<open>Fetching from the controller\<close>

text \<open>
  A thrown value: its \<open>name\<close> and its \<open>message\<close>, the two properties the handlers read.
\<close>

datatype js_error = JsError (error_name: string) (error_message: template)

text \<open>
  A JSON text parses to an object, to an array or to a primitive value (\<open>null\<close>, a
  boolean, a number or a string). Values nested inside an object or an array are not
  modelled.
\<close>

datatype json_body = JsonObject js_object | JsonArray "jsval list" | JsonOther jsval

text \<open>
  Reading a property of the parsed body: of \<open>null\<close> it throws, of an array or of any
  other primitive it gives \<open>undefined\<close> for the names read here. The result is the
  object whose properties are read, or the error thrown by the first read.
\<close>

fun properties_of :: "json_body \<Rightarrow> js_error + js_object" where
  "properties_of (JsonObject obj) = Inr obj"
| "properties_of (JsonArray xs) = Inr []"
| "properties_of (JsonOther JNull) =
     Inl (JsError ''TypeError'' [Lit ''Cannot read properties of null''])"
| "properties_of (JsonOther JUndefined) =
     Inl (JsError ''TypeError'' [Lit ''Cannot read properties of undefined''])"
| "properties_of (JsonOther v) = Inr []"

text \<open>
  What the controller does with the request: nothing ever, a failure of the connection,
  or a reply. The head of a reply (its status line and headers) arrives \<open>arrival\<close>
  milliseconds after the request; this is when \<open>fetch\<close> resolves. The body is read
  after that: it never ends, or the connection breaks, or it arrives whole, each some
  milliseconds after the head. A body that arrives has its text and, when the text is
  JSON, its parsed value.
\<close>

datatype esp_body =
    Stalls
  | Breaks nat string
  | Arrives nat string "json_body option"

datatype esp_reply =
    NoReply
  | Refused (failed_at: nat) string
  | Reply (arrival: nat) (http_status: nat) (reply_body: esp_body)

definition FETCH_TIMEOUT_MS :: nat where
  "FETCH_TIMEOUT_MS = 30000"

definition response_ok :: "nat \<Rightarrow> bool" where
  "response_ok st = (200 \<le> st \<and> st \<le> 299)"

text \<open>
  What \<open>fetch\<close> rejects with once \<open>controller.abort()\<close> has run, and with no connection.
\<close>

definition abort_error :: js_error where
  "abort_error = JsError ''AbortError'' [Lit ''This operation was aborted'']"

text \<open>
  The result of a call: the value returned or the error thrown, or \<open>None\<close> when the
  call never settles; the effects; and the time at which it settles, if it does.
\<close>

record fetch_result =
  outcome :: "(js_error + json_body) option"
  effects :: "effect list"
  settled_at :: "nat option"

text \<open>
  \<open>fetchSensorDataFromESP\<close>: one request, and a timer that aborts it after
  \<open>FETCH_TIMEOUT_MS\<close>. The timer runs first when the timer and the head are both due.
  The timer is cleared as soon as \<open>fetch\<close> resolves or rejects; the body is then read by
  \<open>response.text()\<close> or \<open>response.json()\<close> with no timer running.
\<close>

definition fetchSensorDataFromESP :: "string \<Rightarrow> esp_reply \<Rightarrow> fetch_result" where
  "fetchSensorDataFromESP ESP_IP reply =
     (let request = HttpGet (''http://'' @ ESP_IP @ ''/sensors'');
          timed_out = \<lparr> outcome = Some (Inl abort_error), effects = [request, AbortRequest],
                        settled_at = Some FETCH_TIMEOUT_MS \<rparr>
      in case reply of
           NoReply \<Rightarrow> timed_out
         | Refused t msg \<Rightarrow>
             if FETCH_TIMEOUT_MS \<le> t then timed_out
             else \<lparr> outcome = Some (Inl (JsError ''TypeError'' [Lit msg])), effects = [request],
                    settled_at = Some t \<rparr>
         | Reply t st b \<Rightarrow>
             if FETCH_TIMEOUT_MS \<le> t then timed_out
             else (case b of
                     Stalls \<Rightarrow> \<lparr> outcome = None, effects = [request], settled_at = None \<rparr>
                   | Breaks dt msg \<Rightarrow>
                       \<lparr> outcome = Some (Inl (JsError ''TypeError'' [Lit msg])),
                         effects = [request], settled_at = Some (t + dt) \<rparr>
                   | Arrives dt txt parsed \<Rightarrow>
                       if \<not> response_ok st
                       then \<lparr> outcome = Some (Inl (JsError ''Error''
                                  [Lit ''HTTP '', Sub (JNum (of_nat st)), Lit '': '',
                                   Sub (JStr txt)])),
                              effects = [request], settled_at = Some (t + dt) \<rparr>
                       else (case parsed of
                               None \<Rightarrow>
                                 \<lparr> outcome = Some (Inl (JsError ''SyntaxError''
                                                           [Lit ''Unexpected token''])),
                                   effects = [request], settled_at = Some (t + dt) \<rparr>
                             | Some v \<Rightarrow>
                                 \<lparr> outcome = Some (Inr v), effects = [request],
                                   settled_at = Some (t + dt) \<rparr>)))"

subsection \<open>The archive, every six hours\<close>

definition insert_sql :: string where
  "insert_sql = ''INSERT INTO sensors_data (Pond_ID, Water_Level, WaterTemp, TDS, pH) VALUES (?, ?, ?, ?, ?)''"

text \<open>
  The store answers a query with an error or with rows; \<open>executeQuery\<close> turns the error
  into a rejection.
\<close>

type_synonym store = "string \<Rightarrow> jsval list \<Rightarrow> db_error + js_object list"

text \<open>
  \<open>saveSensorsData\<close>: while the fetch has not settled nothing else happens. The values
  are read off the reply before the query is made; a read that throws is caught like
  any other failure.
\<close>

definition saveSensorsData :: "string \<Rightarrow> esp_reply \<Rightarrow> store \<Rightarrow> effect list" where
  "saveSensorsData ESP_IP reply executeQuery =
     (let r = fetchSensorDataFromESP ESP_IP reply in
      case outcome r of
        None \<Rightarrow> effects r
      | Some (Inl error) \<Rightarrow>
          effects r @
          [if error_name error = ''AbortError''
           then ConsoleError ''[Sensors] Fetch request timed out after 30 seconds''
           else ConsoleError ''[Sensors] Error saving sensor data:'']
      | Some (Inr data) \<Rightarrow>
          (case properties_of data of
             Inl error \<Rightarrow> effects r @ [ConsoleError ''[Sensors] Error saving sensor data:'']
           | Inr d \<Rightarrow>
               (let vals = [JNum 1, js_get d ''waterLevelInside'', js_get d ''waterTemp'',
                            js_get d ''tds'']
                in effects r @ [DbQuery insert_sql vals] @
                   (case executeQuery insert_sql vals of
                      Inl err \<Rightarrow> [ConsoleError ''[Sensors] Error saving sensor data:'']
                    | Inr rows \<Rightarrow> [ConsoleLog ''[Sensors] Data inserted successfully'']))))"

subsection \<open>Comparing a reading with its bounds\<close>

text \<open>
  \<open>ToNumber\<close>, with \<open>None\<close> for \<open>NaN\<close>. The conversion of a string to a number is
  the language's \<open>StringToNumber\<close>, taken as the parameter \<open>S\<close>.
\<close>

fun ToNumber :: "(string \<Rightarrow> rat option) \<Rightarrow> jsval \<Rightarrow> rat option" where
  "ToNumber S JUndefined = None"
| "ToNumber S JNull = Some 0"
| "ToNumber S (JBool b) = Some (if b then 1 else 0)"
| "ToNumber S (JNum n) = Some n"
| "ToNumber S (JStr s) = S s"

text \<open>Two strings are compared unit by unit, here byte by byte.\<close>

fun str_lt :: "string \<Rightarrow> string \<Rightarrow> bool" where
  "str_lt [] [] = False"
| "str_lt [] (y # ys) = True"
| "str_lt (x # xs) [] = False"
| "str_lt (x # xs) (y # ys) =
     ((of_char x :: nat) < of_char y \<or> (x = y \<and> str_lt xs ys))"

text \<open>\<open>a < b\<close>: false as soon as an operand converts to \<open>NaN\<close>. \<open>a > b\<close> is \<open>b < a\<close>.\<close>

definition js_lt :: "(string \<Rightarrow> rat option) \<Rightarrow> jsval \<Rightarrow> jsval \<Rightarrow> bool" where
  "js_lt S a b =
     (case (a, b) of
        (JStr x, JStr y) \<Rightarrow> str_lt x y
      | _ \<Rightarrow> (case (ToNumber S a, ToNumber S b) of
                (Some x, Some y) \<Rightarrow> x < y
              | _ \<Rightarrow> False))"

definition js_gt :: "(string \<Rightarrow> rat option) \<Rightarrow> jsval \<Rightarrow> jsval \<Rightarrow> bool" where
  "js_gt S a b = js_lt S b a"

text \<open>
  The signs that open the messages, byte for byte as the literals of the source file
  have them: the sign before each alert, the sign before and after the \<open>C\<close> of the
  temperature, and the sign before the subject of the mail and the title of the push.
\<close>

definition warning_sign :: string where
  "warning_sign =
     [CHR 0xE2, CHR 0x80, CHR 0x9A, CHR 0xC3, CHR 0xB6, CHR 0xE2, CHR 0x80, CHR 0xA0,
      CHR 0xC3, CHR 0x94, CHR 0xE2, CHR 0x88, CHR 0x8F, CHR 0xC3, CHR 0xA8]"

definition degree_sign :: string where
  "degree_sign = [CHR 0xC2, CHR 0xAC, CHR 0xE2, CHR 0x88, CHR 0x9E]"

definition siren_sign :: string where
  "siren_sign =
     [CHR 0xEF, CHR 0xA3, CHR 0xBF, CHR 0xC3, CHR 0xBC, CHR 0xC3, CHR 0xB6, CHR 0xC2, CHR 0xAE]"

definition water_level_alert :: "jsval \<Rightarrow> jsval \<Rightarrow> jsval \<Rightarrow> template" where
  "water_level_alert v lo hi =
     [Lit (warning_sign @ '' Water Level: ''), Sub v, Lit '' (Range: '', Sub lo, Lit ''-'',
      Sub hi, Lit '')'']"

definition temperature_alert :: "jsval \<Rightarrow> jsval \<Rightarrow> jsval \<Rightarrow> template" where
  "temperature_alert v lo hi =
     [Lit (warning_sign @ '' Temperature: ''), Sub v, Lit (degree_sign @ ''C (Range: ''),
      Sub lo, Lit ''-'', Sub hi, Lit (degree_sign @ ''C)'')]"

definition tds_alert :: "jsval \<Rightarrow> jsval \<Rightarrow> jsval \<Rightarrow> template" where
  "tds_alert v lo hi =
     [Lit (warning_sign @ '' TDS: ''), Sub v, Lit '' (Range: '', Sub lo, Lit ''-'', Sub hi,
      Lit '')'']"

text \<open>
  The evaluation inside \<open>checkConditionsAndSendAlert\<close>: \<open>pondData\<close> is read from the
  controller's reply, and \<open>alerts\<close> grows by one message for each reading outside its
  bounds, in the order of the three tests.
\<close>

definition evaluate :: "(string \<Rightarrow> rat option) \<Rightarrow> js_object \<Rightarrow> js_object \<Rightarrow> template list" where
  "evaluate S espData threshold =
     (let waterLevel = js_get espData ''waterLevelInside'';
          temperature = js_get espData ''waterTemp'';
          tds = js_get espData ''tds'';
          alerts0 = [];
          alerts1 =
            (if js_lt S waterLevel (js_get threshold ''min_water_level'') \<or>
                js_gt S waterLevel (js_get threshold ''max_water_level'')
             then alerts0 @ [water_level_alert waterLevel (js_get threshold ''min_water_level'')
                               (js_get threshold ''max_water_level'')]
             else alerts0);
          alerts2 =
            (if js_lt S temperature (js_get threshold ''min_temperature'') \<or>
                js_gt S temperature (js_get threshold ''max_temperature'')
             then alerts1 @ [temperature_alert temperature (js_get threshold ''min_temperature'')
                               (js_get threshold ''max_temperature'')]
             else alerts1);
          alerts3 =
            (if js_lt S tds (js_get threshold ''min_tds'') \<or>
                js_gt S tds (js_get threshold ''max_tds'')
             then alerts2 @ [tds_alert tds (js_get threshold ''min_tds'')
                               (js_get threshold ''max_tds'')]
             else alerts2)
      in alerts3)"

subsection \<open>Alerting the workers\<close>

text \<open>
  The world of one condition check: the controller, the store, the mail transport (the
  error its callback receives, if any, and whether the callback runs before the push
  request is answered) and the push service (the server key of the environment, and
  what the request to the service does).
\<close>

datatype push_reply = PushRejected string | PushAnswered nat string bool

record alert_world =
  esp_ip :: string
  esp_answer :: esp_reply
  db :: store
  string_to_number :: "string \<Rightarrow> rat option"
  email_user :: jsval
  mail_failure :: "string option"
  mail_answers_first :: bool
  fcm_server_key :: jsval
  fcm_answer :: push_reply

definition sendAlertEmails :: "alert_world \<Rightarrow> template list \<Rightarrow> jsval list \<Rightarrow> effect list" where
  "sendAlertEmails w alerts workerEmails =
     [SendMail \<lparr> mail_from = email_user w, mail_to = workerEmails,
                 mail_subject = siren_sign @ '' Pond Condition Alert'', mail_text = alerts \<rparr>]"

text \<open>
  The callback given to \<open>sendMail\<close>. It runs when the transport has answered, which is
  after \<open>sendAlertEmails\<close> has returned and the code that follows has run as far as its
  first wait.
\<close>

definition sendMail_callback :: "alert_world \<Rightarrow> effect list" where
  "sendMail_callback w =
     (case mail_failure w of
        Some err \<Rightarrow> [ConsoleError ''[Email] Failed to send alert:'']
      | None \<Rightarrow> [ConsoleLog ''[Email] Alert sent successfully:''])"

text \<open>
  \<open>sendPushNotificationFCM\<close> is declared twice in the module; the second declaration,
  over the legacy HTTP interface, is the one that runs.
\<close>

definition sendPushNotificationFCM :: "alert_world \<Rightarrow> template list \<Rightarrow> effect list" where
  "sendPushNotificationFCM w alerts =
     (if \<not> truthy (fcm_server_key w)
      then [ConsoleWarn ''[FCM] FCM_SERVER_KEY not configured; skipping push'']
      else HttpPost ''https://fcm.googleapis.com/fcm/send''
             \<lparr> push_to = ''/topics/all'',
               push_title = siren_sign @ '' Pond Condition Alert'',
               push_body = alerts, push_data_alerts = alerts \<rparr> #
        (case fcm_answer w of
           PushRejected msg \<Rightarrow> [ConsoleError ''[FCM] Error sending push:'']
         | PushAnswered st txt is_json \<Rightarrow>
             if \<not> response_ok st then [ConsoleError ''[FCM] Push send failed:'']
             else if is_json then [ConsoleLog ''[FCM] Push sent successfully:'']
             else [ConsoleError ''[FCM] Error sending push:'']))"

definition thresholds_sql :: string where
  "thresholds_sql = ''SELECT * FROM thresholds LIMIT 1''"

definition worker_sql :: string where
  "worker_sql = ''SELECT email FROM worker''"

text \<open>
  Step 5 of the check, entered with a non-empty list of alerts: the workers' addresses
  are read, the mail is sent unless there is no address, then the push. A failed query
  is thrown to the handler of the check. The mail is not waited for: the push function
  runs at once, as far as its request or its skip message, and the mail's callback runs
  after that, before or after the answer to the push.
\<close>

definition dispatch_alerts :: "alert_world \<Rightarrow> template list \<Rightarrow> db_error option \<times> effect list" where
  "dispatch_alerts w alerts =
     (case db w worker_sql [] of
        Inl err \<Rightarrow> (Some err, [DbQuery worker_sql []])
      | Inr workerResults \<Rightarrow>
          (let workerEmails = map (\<lambda>row. js_get row ''email'') workerResults;
               push = sendPushNotificationFCM w alerts
           in (None,
               [DbQuery worker_sql []] @
               (if length workerEmails = 0
                then [ConsoleError ''[Alerts] No worker emails found''] @ push
                else sendAlertEmails w alerts workerEmails @
                     (if mail_answers_first w
                      then take 1 push @ sendMail_callback w @ drop 1 push
                      else push @ sendMail_callback w)))))"

text \<open>
  \<open>checkConditionsAndSendAlert\<close>: every failure inside is caught and logged; the
  function returns nothing in every case. While the fetch has not settled nothing else
  happens. The thresholds are queried before the readings are read off the reply.
\<close>

definition checkConditionsAndSendAlert :: "alert_world \<Rightarrow> effect list" where
  "checkConditionsAndSendAlert w =
     (let r = fetchSensorDataFromESP (esp_ip w) (esp_answer w) in
      case outcome r of
        None \<Rightarrow> effects r
      | Some (Inl error) \<Rightarrow>
          effects r @
          [if error_name error = ''AbortError''
           then ConsoleError ''[Alerts] Fetch request timed out''
           else ConsoleError ''[Alerts] Error checking conditions:'']
      | Some (Inr data) \<Rightarrow>
          (case db w thresholds_sql [] of
             Inl err \<Rightarrow>
               effects r @ [DbQuery thresholds_sql [],
                            ConsoleError ''[Alerts] Error checking conditions:'']
           | Inr thresholds \<Rightarrow>
               (case thresholds of
                  [] \<Rightarrow>
                    effects r @ [DbQuery thresholds_sql [],
                                 ConsoleError ''[Alerts] No threshold configuration found'']
                | threshold # rest \<Rightarrow>
                    (case properties_of data of
                       Inl error \<Rightarrow>
                         effects r @ [DbQuery thresholds_sql [],
                                      ConsoleError ''[Alerts] Error checking conditions:'']
                     | Inr espData \<Rightarrow>
                         (let alerts = evaluate (string_to_number w) espData threshold in
                          if length alerts > 0
                          then (case dispatch_alerts w alerts of
                                  (Some err, fx) \<Rightarrow>
                                    effects r @ [DbQuery thresholds_sql []] @ fx @
                                    [ConsoleError ''[Alerts] Error checking conditions:'']
                                | (None, fx) \<Rightarrow> effects r @ [DbQuery thresholds_sql []] @ fx)
                          else effects r @
                               [DbQuery thresholds_sql [],
                                ConsoleLog ''[Alerts] All pond conditions are normal''])))))"

text \<open>
  \<open>GET /alerts/test-push\<close>: the check, then the answer to the caller. The route waits
  for the check, so there is no answer while the fetch has not settled.
\<close>

definition test_push :: "alert_world \<Rightarrow> effect list \<times> response option" where
  "test_push w =
     (checkConditionsAndSendAlert w,
      (case outcome (fetchSensorDataFromESP (esp_ip w) (esp_answer w)) of
         None \<Rightarrow> None
       | Some res \<Rightarrow> Some \<lparr> status = 200, body = [(''status'', BVal (JStr ''triggered''))] \<rparr>))"

section \<open>The store connection\<close>

text \<open>
  The two connection modules each install a handler of the connection's \<open>error\<close> event.
  The result is the effects and the error thrown, if any. The first module is the local
  one; the second also retries the first connection and is the deployed one.
\<close>

definition on_error_local :: "js_object \<Rightarrow> effect list \<times> js_object option" where
  "on_error_local err =
     (if strict_eq (js_get err ''code'') (JStr ''PROTOCOL_CONNECTION_LOST'') \<or>
         strict_eq (js_get err ''code'') (JStr ''ECONNRESET'')
      then ([ConsoleError ''Database connection error:'',
             ConsoleLog ''Attempting to reconnect...'', Connect], None)
      else ([ConsoleError ''Database connection error:''], Some err))"

definition on_error_deployed :: "js_object \<Rightarrow> effect list \<times> js_object option" where
  "on_error_deployed err =
     (if strict_eq (js_get err ''code'') (JStr ''PROTOCOL_CONNECTION_LOST'') \<or>
         strict_eq (js_get err ''code'') (JStr ''ECONNRESET'') \<or>
         strict_eq (js_get err ''code'') (JStr ''PROTOCOL_ENQUEUE_AFTER_FATAL_ERROR'')
      then ([ConsoleError ''Database connection error:'',
             ConsoleLog ''Attempting to reconnect...'', Connect], None)
      else ([ConsoleError ''Database connection error:''], Some err))"

section \<open>Reading a trace\<close>

text \<open>The channel an effect is a delivery attempt on, if it is one.\<close>

datatype channel = Realtime | MobilePush | Email

fun channel_of :: "effect \<Rightarrow> channel option" where
  "channel_of (IoEmit ev r) = Some Realtime"
| "channel_of (AdminSend m) = Some MobilePush"
| "channel_of (HttpPost url p) = Some MobilePush"
| "channel_of (SendMail m) = Some Email"
| "channel_of _ = None"

definition attempted :: "effect list \<Rightarrow> channel list" where
  "attempted fx = List.map_filter channel_of fx"


section \<open>Concrete inputs\<close>

text \<open>
  The inputs at which the theorems below are run: a feeding at 14:00 for pond 2, seen
  at 13:50; the thresholds water level 10 to 50, temperature 20 to 32, TDS 0 to 500; a
  store holding those thresholds and one worker; a controller whose reply arrives after
  120 ms, its body 5 ms later.
\<close>

definition sample_row :: js_object where
  "sample_row =
     [(''feeding_ID'', JNum 7), (''Pond_ID'', JNum 2), (''feeding_time'', JStr ''14:00:00'')]"

definition sample_push_world :: push_world where
  "sample_push_world =
     \<lparr> admin_initialized = True, admin_send = (\<lambda>m. Rejects ''unavailable'') \<rparr>"

definition sample_threshold :: js_object where
  "sample_threshold =
     [(''min_water_level'', JNum 10), (''max_water_level'', JNum 50),
      (''min_temperature'', JNum 20), (''max_temperature'', JNum 32),
      (''min_tds'', JNum 0), (''max_tds'', JNum 500)]"

definition sample_store :: store where
  "sample_store sql vals =
     (if sql = thresholds_sql then Inr [sample_threshold]
      else if sql = worker_sql then Inr [[(''email'', JStr ''worker@example.org'')]]
      else Inl (DbError ''ER_PARSE_ERROR''))"

definition empty_store :: store where
  "empty_store sql vals = Inr []"

definition sample_world :: "js_object \<Rightarrow> alert_world" where
  "sample_world espData =
     \<lparr> esp_ip = ''192.168.1.127'',
       esp_answer = Reply 120 200 (Arrives 5 [] (Some (JsonObject espData))),
       db = sample_store,
       string_to_number = (\<lambda>s. None),
       email_user = JStr ''pond@example.org'',
       mail_failure = Some ''ECONNREFUSED'',
       mail_answers_first = False,
       fcm_server_key = JStr ''key'',
       fcm_answer = PushRejected ''fetch failed'' \<rparr>"

definition low_water :: js_object where
  "low_water = [(''waterLevelInside'', JNum 5), (''waterTemp'', JNum 26), (''tds'', JNum 300)]"

definition all_out :: js_object where
  "all_out = [(''tds'', JNum 501), (''waterTemp'', JNum 19), (''waterLevelInside'', JNum 51)]"

definition on_bounds :: js_object where
  "on_bounds = [(''waterLevelInside'', JNum 10), (''waterTemp'', JNum 32), (''tds'', JNum 0)]"

definition no_water_level :: js_object where
  "no_water_level = [(''waterTemp'', JNum 26), (''tds'', JNum 300)]"

definition with_pH :: js_object where
  "with_pH =
     [(''waterLevelInside'', JNum 30), (''waterTemp'', JNum 26), (''tds'', JNum 300),
      (''pH'', JNum 7)]"

section \<open>Properties\<close>

lemma strict_eq_iff: "strict_eq a b \<longleftrightarrow> a = b"
  by (cases a; cases b) auto

subsection \<open>Feeding reminders are not duplicated\<close>

lemma exists_after_create:
  "js_get row' ''feeding_ID'' = js_get row ''feeding_ID'' \<Longrightarrow>
   reminder_exists (snd (tryCreate now row reminders)) row'"
  by (simp add: tryCreate_def reminder_exists_def new_reminder_def strict_eq_iff list_ex_iff)

lemma exists_mono:
  "reminder_exists reminders row \<Longrightarrow> reminder_exists (snd (tryCreate t x reminders)) row"
  by (auto simp add: tryCreate_def reminder_exists_def list_ex_iff)

lemma exists_foldl:
  "reminder_exists reminders row \<Longrightarrow>
   reminder_exists (foldl (\<lambda>rs c. snd (tryCreate (fst c) (snd c) rs)) reminders others) row"
  by (induction others arbitrary: reminders) (simp_all add: exists_mono)

lemma tryCreate_existing:
  "reminder_exists reminders row \<Longrightarrow> tryCreate now row reminders = (None, reminders)"
  by (simp add: tryCreate_def)

lemma scan_row_existing:
  "reminder_exists (fst st) row \<Longrightarrow> scan_row w now st row = st"
  by (simp add: scan_row_def tryCreate_existing)

lemma scan_row_fst:
  "fst (scan_row w now st row) = snd (tryCreate now row (fst st))"
  by (simp add: scan_row_def tryCreate_def)

lemma foldl_scan_row_existing:
  "list_all (reminder_exists (fst st)) rows \<Longrightarrow> foldl (scan_row w now) st rows = st"
  by (induction rows arbitrary: st) (simp_all add: scan_row_existing)

lemma exists_foldl_scan:
  "reminder_exists (fst st) row \<Longrightarrow> reminder_exists (fst (foldl (scan_row w now) st rows)) row"
  by (induction rows arbitrary: st) (simp_all add: scan_row_fst exists_mono)

lemma all_exist_after_scan:
  "list_all (reminder_exists (fst (foldl (scan_row w now) st rows))) rows"
proof (induction rows arbitrary: st)
  case Nil
  show ?case by simp
next
  case (Cons r rows)
  have "reminder_exists (fst (scan_row w now st r)) r"
    by (simp add: scan_row_fst exists_after_create)
  then have "reminder_exists (fst (foldl (scan_row w now) (scan_row w now st r) rows)) r"
    by (rule exists_foldl_scan)
  with Cons.IH show ?case by simp
qed

lemma second_scan_silent:
  "feeding_scan w' h' m' (Inr rows) (fst (feeding_scan w h m (Inr rows) reminders)) =
     (fst (feeding_scan w h m (Inr rows) reminders),
      [DbQuery feeding_sql [JStr (currentTime h' m'), JStr (currentTime h' m')]])"
proof (cases rows)
  case Nil
  then show ?thesis by (simp add: feeding_scan_def Let_def)
next
  case (Cons r rs)
  let ?q = "DbQuery feeding_sql [JStr (currentTime h m), JStr (currentTime h m)]"
  let ?q' = "DbQuery feeding_sql [JStr (currentTime h' m'), JStr (currentTime h' m')]"
  let ?st = "foldl (scan_row w (currentTime h m)) (reminders, [?q]) rows"
  have "list_all (reminder_exists (fst ?st)) rows"
    by (rule all_exist_after_scan)
  then have "foldl (scan_row w' (currentTime h' m')) (fst ?st, [?q']) rows = (fst ?st, [?q'])"
    by (intro foldl_scan_row_existing) simp
  with Cons show ?thesis by (simp add: feeding_scan_def Let_def)
qed

text \<open>
  C1. Let a feeding identifier have no live reminder. The first \<open>tryCreate\<close> for it
  returns the new, unacknowledged reminder and appends it to the list. After that, and
  after any further \<open>tryCreate\<close> calls for any rows, a \<open>tryCreate\<close> for a row with the same
  identifier returns \<open>None\<close> and leaves the list as it is, and the scan's loop body for
  such a row adds no effect: no second broadcast and no second push. A whole second
  scan over the same rows changes no reminder and does nothing but its query.
\<close>

theorem tryCreate_dedup:
  assumes first: "\<not> reminder_exists reminders row"
      and same: "js_get row' ''feeding_ID'' = js_get row ''feeding_ID''"
  shows "let rs1 = snd (tryCreate now row reminders);
             rs2 = foldl (\<lambda>rs c. snd (tryCreate (fst c) (snd c) rs)) rs1 others
         in tryCreate now row reminders =
              (Some (new_reminder now row), reminders @ [new_reminder now row])
          \<and> feeding_ID (new_reminder now row) = js_get row ''feeding_ID''
          \<and> \<not> acknowledged (new_reminder now row)
          \<and> tryCreate now' row' rs2 = (None, rs2)
          \<and> scan_row w now' (rs2, out) row' = (rs2, out)
          \<and> feeding_scan w2 h2 m2 (Inr rows) (fst (feeding_scan w1 h1 m1 (Inr rows) reminders)) =
              (fst (feeding_scan w1 h1 m1 (Inr rows) reminders),
               [DbQuery feeding_sql [JStr (currentTime h2 m2), JStr (currentTime h2 m2)]])"
proof -
  let ?rs1 = "snd (tryCreate now row reminders)"
  let ?rs2 = "foldl (\<lambda>rs c. snd (tryCreate (fst c) (snd c) rs)) ?rs1 others"
  have "reminder_exists ?rs1 row'"
    using same by (rule exists_after_create)
  then have ex: "reminder_exists ?rs2 row'"
    by (rule exists_foldl)
  have a: "tryCreate now row reminders =
             (Some (new_reminder now row), reminders @ [new_reminder now row])"
    using first by (simp add: tryCreate_def)
  have b: "feeding_ID (new_reminder now row) = js_get row ''feeding_ID''"
    and c: "\<not> acknowledged (new_reminder now row)"
    by (simp_all add: new_reminder_def)
  have d: "tryCreate now' row' ?rs2 = (None, ?rs2)"
    using ex by (rule tryCreate_existing)
  have e: "scan_row w now' (?rs2, out) row' = (?rs2, out)"
    using ex by (simp add: scan_row_existing)
  show ?thesis
    unfolding Let_def using a b c d e second_scan_silent by blast
qed

theorem tryCreate_dedup_witness:
  "\<not> reminder_exists [] sample_row
   \<and> tryCreate ''13:50:00'' sample_row [] =
       (Some (new_reminder ''13:50:00'' sample_row), [new_reminder ''13:50:00'' sample_row])
   \<and> tryCreate ''13:51:00'' sample_row [new_reminder ''13:50:00'' sample_row] =
       (None, [new_reminder ''13:50:00'' sample_row])
   \<and> scan_row sample_push_world ''13:51:00'' ([new_reminder ''13:50:00'' sample_row], []) sample_row =
       ([new_reminder ''13:50:00'' sample_row], [])"
proof -
  have first: "\<not> reminder_exists [] sample_row"
    by (simp add: reminder_exists_def)
  have same: "js_get sample_row ''feeding_ID'' = js_get sample_row ''feeding_ID''"
    by (rule refl)
  note inst = tryCreate_dedup [OF first same, where now = "''13:50:00''" and others = "[]"
        and now' = "''13:51:00''" and w = sample_push_world and out = "[]"
        and ?w1.0 = sample_push_world and ?w2.0 = sample_push_world and rows = "[]"
        and ?h1.0 = 13 and ?m1.0 = 50 and ?h2.0 = 13 and ?m2.0 = 51, unfolded Let_def]
  have a: "tryCreate ''13:50:00'' sample_row [] =
       (Some (new_reminder ''13:50:00'' sample_row), [new_reminder ''13:50:00'' sample_row])"
    using inst [THEN conjunct1] by simp
  have d: "tryCreate ''13:51:00'' sample_row (snd (tryCreate ''13:50:00'' sample_row [])) =
       (None, snd (tryCreate ''13:50:00'' sample_row []))"
    using inst [THEN conjunct2, THEN conjunct2, THEN conjunct2, THEN conjunct1] by simp
  have e: "scan_row sample_push_world ''13:51:00'' (snd (tryCreate ''13:50:00'' sample_row []), [])
             sample_row = (snd (tryCreate ''13:50:00'' sample_row []), [])"
    using inst [THEN conjunct2, THEN conjunct2, THEN conjunct2, THEN conjunct2, THEN conjunct1]
    by simp
  show ?thesis
    using first a d e by simp
qed

subsection \<open>Readings against their bounds\<close>

lemma js_lt_num: "js_lt S (JNum a) (JNum b) \<longleftrightarrow> a < b"
  by (simp add: js_lt_def)

lemma js_gt_num: "js_gt S (JNum a) (JNum b) \<longleftrightarrow> b < a"
  by (simp add: js_gt_def js_lt_def)

lemma js_lt_undefined: "\<not> js_lt S JUndefined b"
  by (cases b) (simp_all add: js_lt_def)

lemma js_gt_undefined: "\<not> js_gt S JUndefined b"
  by (cases b) (simp_all add: js_gt_def js_lt_def split: option.splits)

lemma alerts_distinct:
  "water_level_alert v lo hi \<noteq> temperature_alert v' lo' hi'"
  "water_level_alert v lo hi \<noteq> tds_alert v' lo' hi'"
  "temperature_alert v lo hi \<noteq> tds_alert v' lo' hi'"
  "temperature_alert v lo hi \<noteq> water_level_alert v' lo' hi'"
  "tds_alert v lo hi \<noteq> water_level_alert v' lo' hi'"
  "tds_alert v lo hi \<noteq> temperature_alert v' lo' hi'"
  by (simp_all add: water_level_alert_def temperature_alert_def tds_alert_def)

lemma evaluate_parts:
  "evaluate S espData threshold =
     (if js_lt S (js_get espData ''waterLevelInside'') (js_get threshold ''min_water_level'') \<or>
         js_gt S (js_get espData ''waterLevelInside'') (js_get threshold ''max_water_level'')
      then [water_level_alert (js_get espData ''waterLevelInside'')
              (js_get threshold ''min_water_level'') (js_get threshold ''max_water_level'')]
      else []) @
     (if js_lt S (js_get espData ''waterTemp'') (js_get threshold ''min_temperature'') \<or>
         js_gt S (js_get espData ''waterTemp'') (js_get threshold ''max_temperature'')
      then [temperature_alert (js_get espData ''waterTemp'')
              (js_get threshold ''min_temperature'') (js_get threshold ''max_temperature'')]
      else []) @
     (if js_lt S (js_get espData ''tds'') (js_get threshold ''min_tds'') \<or>
         js_gt S (js_get espData ''tds'') (js_get threshold ''max_tds'')
      then [tds_alert (js_get espData ''tds'')
              (js_get threshold ''min_tds'') (js_get threshold ''max_tds'')]
      else [])"
  by (simp add: evaluate_def Let_def)

lemma sample_threshold_fields:
  "js_get sample_threshold ''min_water_level'' = JNum 10"
  "js_get sample_threshold ''max_water_level'' = JNum 50"
  "js_get sample_threshold ''min_temperature'' = JNum 20"
  "js_get sample_threshold ''max_temperature'' = JNum 32"
  "js_get sample_threshold ''min_tds'' = JNum 0"
  "js_get sample_threshold ''max_tds'' = JNum 500"
  by (simp_all add: sample_threshold_def js_get_def)

lemma alert_texts:
  "water_level_alert v lo hi =
     [Lit ([CHR 0xE2, CHR 0x80, CHR 0x9A, CHR 0xC3, CHR 0xB6, CHR 0xE2, CHR 0x80, CHR 0xA0,
                 CHR 0xC3, CHR 0x94, CHR 0xE2, CHR 0x88, CHR 0x8F, CHR 0xC3, CHR 0xA8] @ '' Water Level: ''), Sub v, Lit '' (Range: '', Sub lo,
      Lit ''-'', Sub hi, Lit '')'']"
  "temperature_alert v lo hi =
     [Lit ([CHR 0xE2, CHR 0x80, CHR 0x9A, CHR 0xC3, CHR 0xB6, CHR 0xE2, CHR 0x80, CHR 0xA0,
                 CHR 0xC3, CHR 0x94, CHR 0xE2, CHR 0x88, CHR 0x8F, CHR 0xC3, CHR 0xA8] @ '' Temperature: ''), Sub v,
      Lit ([CHR 0xC2, CHR 0xAC, CHR 0xE2, CHR 0x88, CHR 0x9E] @ ''C (Range: ''), Sub lo, Lit ''-'', Sub hi,
      Lit ([CHR 0xC2, CHR 0xAC, CHR 0xE2, CHR 0x88, CHR 0x9E] @ ''C)'')]"
  "tds_alert v lo hi =
     [Lit ([CHR 0xE2, CHR 0x80, CHR 0x9A, CHR 0xC3, CHR 0xB6, CHR 0xE2, CHR 0x80, CHR 0xA0,
                 CHR 0xC3, CHR 0x94, CHR 0xE2, CHR 0x88, CHR 0x8F, CHR 0xC3, CHR 0xA8] @ '' TDS: ''), Sub v, Lit '' (Range: '', Sub lo, Lit ''-'',
      Sub hi, Lit '')'']"
  by (simp_all add: water_level_alert_def temperature_alert_def tds_alert_def
      warning_sign_def degree_sign_def)

text \<open>
  C2. With numbers for the three readings and the six bounds, the alerts of one
  evaluation are: the water level message if and only if the level is below its minimum
  or above its maximum, then the temperature message under the same test, then the TDS
  message under the same test. The messages are spelled out: the sign, the metric's name
  (\<open>Water Level\<close>, \<open>Temperature\<close>, \<open>TDS\<close>), the reading, and the range with the two
  bounds. The messages that open with a metric's name are one when its reading is
  strictly outside and none when it is not. A reading equal to its minimum or its
  maximum, the minimum being at most the maximum, gives no message for its metric.
\<close>

theorem evaluate_strictly_outside:
  assumes "js_get espData ''waterLevelInside'' = JNum w"
      and "js_get threshold ''min_water_level'' = JNum wlo"
      and "js_get threshold ''max_water_level'' = JNum whi"
      and "js_get espData ''waterTemp'' = JNum t"
      and "js_get threshold ''min_temperature'' = JNum tlo"
      and "js_get threshold ''max_temperature'' = JNum thi"
      and "js_get espData ''tds'' = JNum d"
      and "js_get threshold ''min_tds'' = JNum dlo"
      and "js_get threshold ''max_tds'' = JNum dhi"
  shows "let sign = [CHR 0xE2, CHR 0x80, CHR 0x9A, CHR 0xC3, CHR 0xB6, CHR 0xE2, CHR 0x80, CHR 0xA0,
                 CHR 0xC3, CHR 0x94, CHR 0xE2, CHR 0x88, CHR 0x8F, CHR 0xC3, CHR 0xA8];
             deg = [CHR 0xC2, CHR 0xAC, CHR 0xE2, CHR 0x88, CHR 0x9E];
             level = Lit (sign @ '' Water Level: '');
             temp = Lit (sign @ '' Temperature: '');
             solids = Lit (sign @ '' TDS: '');
             alerts = evaluate S espData threshold
         in alerts =
              (if w < wlo \<or> whi < w
               then [[level, Sub (JNum w), Lit '' (Range: '', Sub (JNum wlo), Lit ''-'',
                      Sub (JNum whi), Lit '')'']]
               else []) @
              (if t < tlo \<or> thi < t
               then [[temp, Sub (JNum t), Lit (deg @ ''C (Range: ''), Sub (JNum tlo), Lit ''-'',
                      Sub (JNum thi), Lit (deg @ ''C)'')]]
               else []) @
              (if d < dlo \<or> dhi < d
               then [[solids, Sub (JNum d), Lit '' (Range: '', Sub (JNum dlo), Lit ''-'',
                      Sub (JNum dhi), Lit '')'']]
               else [])
          \<and> length (filter (\<lambda>m. take 1 m = [level]) alerts) = (if w < wlo \<or> whi < w then 1 else 0)
          \<and> length (filter (\<lambda>m. take 1 m = [temp]) alerts) = (if t < tlo \<or> thi < t then 1 else 0)
          \<and> length (filter (\<lambda>m. take 1 m = [solids]) alerts) = (if d < dlo \<or> dhi < d then 1 else 0)
          \<and> (wlo \<le> whi \<and> (w = wlo \<or> w = whi) \<longrightarrow> \<not> list_ex (\<lambda>m. take 1 m = [level]) alerts)
          \<and> (tlo \<le> thi \<and> (t = tlo \<or> t = thi) \<longrightarrow> \<not> list_ex (\<lambda>m. take 1 m = [temp]) alerts)
          \<and> (dlo \<le> dhi \<and> (d = dlo \<or> d = dhi) \<longrightarrow> \<not> list_ex (\<lambda>m. take 1 m = [solids]) alerts)"
proof -
  let ?sign = "[CHR 0xE2, CHR 0x80, CHR 0x9A, CHR 0xC3, CHR 0xB6, CHR 0xE2, CHR 0x80, CHR 0xA0,
                 CHR 0xC3, CHR 0x94, CHR 0xE2, CHR 0x88, CHR 0x8F, CHR 0xC3, CHR 0xA8]"
  let ?deg = "[CHR 0xC2, CHR 0xAC, CHR 0xE2, CHR 0x88, CHR 0x9E]"
  let ?level = "Lit (?sign @ '' Water Level: '')"
  let ?temp = "Lit (?sign @ '' Temperature: '')"
  let ?solids = "Lit (?sign @ '' TDS: '')"
  let ?L = "[?level, Sub (JNum w), Lit '' (Range: '', Sub (JNum wlo), Lit ''-'',
             Sub (JNum whi), Lit '')'']"
  let ?T = "[?temp, Sub (JNum t), Lit (?deg @ ''C (Range: ''), Sub (JNum tlo), Lit ''-'',
             Sub (JNum thi), Lit (?deg @ ''C)'')]"
  let ?D = "[?solids, Sub (JNum d), Lit '' (Range: '', Sub (JNum dlo), Lit ''-'',
             Sub (JNum dhi), Lit '')'']"
  have eq: "evaluate S espData threshold =
           (if w < wlo \<or> whi < w then [?L] else []) @
           (if t < tlo \<or> thi < t then [?T] else []) @
           (if d < dlo \<or> dhi < d then [?D] else [])"
    unfolding evaluate_parts assms js_lt_num js_gt_num alert_texts by (rule refl)
  have heads: "take 1 ?L = [?level]" "take 1 ?T = [?temp]" "take 1 ?D = [?solids]"
    by simp_all
  have differ: "?level \<noteq> ?temp" "?level \<noteq> ?solids" "?temp \<noteq> ?solids"
    by simp_all
  have counts: "length (filter (\<lambda>m. take 1 m = [?level]) (evaluate S espData threshold))
                  = (if w < wlo \<or> whi < w then 1 else 0)"
    "length (filter (\<lambda>m. take 1 m = [?temp]) (evaluate S espData threshold))
                  = (if t < tlo \<or> thi < t then 1 else 0)"
    "length (filter (\<lambda>m. take 1 m = [?solids]) (evaluate S espData threshold))
                  = (if d < dlo \<or> dhi < d then 1 else 0)"
    unfolding eq by simp_all
  have bw: "\<not> list_ex (\<lambda>m. take 1 m = [?level]) (evaluate S espData threshold)"
    if "wlo \<le> whi" "w = wlo \<or> w = whi"
    unfolding eq using that by auto
  have bt: "\<not> list_ex (\<lambda>m. take 1 m = [?temp]) (evaluate S espData threshold)"
    if "tlo \<le> thi" "t = tlo \<or> t = thi"
    unfolding eq using that by auto
  have bd: "\<not> list_ex (\<lambda>m. take 1 m = [?solids]) (evaluate S espData threshold)"
    if "dlo \<le> dhi" "d = dlo \<or> d = dhi"
    unfolding eq using that by auto
  show ?thesis
    unfolding Let_def using eq counts bw bt bd by blast
qed

lemma sample_readings:
  "js_get on_bounds ''waterLevelInside'' = JNum 10"
  "js_get on_bounds ''waterTemp'' = JNum 32"
  "js_get on_bounds ''tds'' = JNum 0"
  "js_get low_water ''waterLevelInside'' = JNum 5"
  "js_get low_water ''waterTemp'' = JNum 26"
  "js_get low_water ''tds'' = JNum 300"
  "js_get all_out ''waterLevelInside'' = JNum 51"
  "js_get all_out ''waterTemp'' = JNum 19"
  "js_get all_out ''tds'' = JNum 501"
  by (simp_all add: on_bounds_def low_water_def all_out_def js_get_def)

theorem evaluate_strictly_outside_witness:
  "evaluate (\<lambda>s. None) on_bounds sample_threshold = []
   \<and> evaluate (\<lambda>s. None) low_water sample_threshold =
       [[Lit ([CHR 0xE2, CHR 0x80, CHR 0x9A, CHR 0xC3, CHR 0xB6, CHR 0xE2, CHR 0x80, CHR 0xA0,
                 CHR 0xC3, CHR 0x94, CHR 0xE2, CHR 0x88, CHR 0x8F, CHR 0xC3, CHR 0xA8] @ '' Water Level: ''),
         Sub (JNum 5), Lit '' (Range: '', Sub (JNum 10), Lit ''-'', Sub (JNum 50), Lit '')'']]
   \<and> evaluate (\<lambda>s. None) all_out sample_threshold =
       [[Lit ([CHR 0xE2, CHR 0x80, CHR 0x9A, CHR 0xC3, CHR 0xB6, CHR 0xE2, CHR 0x80, CHR 0xA0,
                 CHR 0xC3, CHR 0x94, CHR 0xE2, CHR 0x88, CHR 0x8F, CHR 0xC3, CHR 0xA8] @ '' Water Level: ''),
         Sub (JNum 51), Lit '' (Range: '', Sub (JNum 10), Lit ''-'', Sub (JNum 50), Lit '')''],
        [Lit ([CHR 0xE2, CHR 0x80, CHR 0x9A, CHR 0xC3, CHR 0xB6, CHR 0xE2, CHR 0x80, CHR 0xA0,
                 CHR 0xC3, CHR 0x94, CHR 0xE2, CHR 0x88, CHR 0x8F, CHR 0xC3, CHR 0xA8] @ '' Temperature: ''),
         Sub (JNum 19), Lit ([CHR 0xC2, CHR 0xAC, CHR 0xE2, CHR 0x88, CHR 0x9E] @ ''C (Range: ''), Sub (JNum 20), Lit ''-'', Sub (JNum 32),
         Lit ([CHR 0xC2, CHR 0xAC, CHR 0xE2, CHR 0x88, CHR 0x9E] @ ''C)'')],
        [Lit ([CHR 0xE2, CHR 0x80, CHR 0x9A, CHR 0xC3, CHR 0xB6, CHR 0xE2, CHR 0x80, CHR 0xA0,
                 CHR 0xC3, CHR 0x94, CHR 0xE2, CHR 0x88, CHR 0x8F, CHR 0xC3, CHR 0xA8] @ '' TDS: ''),
         Sub (JNum 501), Lit '' (Range: '', Sub (JNum 0), Lit ''-'', Sub (JNum 500), Lit '')'']]
   \<and> \<not> list_ex (\<lambda>m. take 1 m = [Lit ([CHR 0xE2, CHR 0x80, CHR 0x9A, CHR 0xC3, CHR 0xB6, CHR 0xE2, CHR 0x80, CHR 0xA0,
                 CHR 0xC3, CHR 0x94, CHR 0xE2, CHR 0x88, CHR 0x8F, CHR 0xC3, CHR 0xA8] @ '' Water Level: '')])
         (evaluate (\<lambda>s. None) on_bounds sample_threshold)"
proof -
  note bounds = evaluate_strictly_outside [OF sample_readings(1) sample_threshold_fields(1,2)
        sample_readings(2) sample_threshold_fields(3,4) sample_readings(3)
        sample_threshold_fields(5,6), of "\<lambda>s. None", unfolded Let_def]
  note low = evaluate_strictly_outside [OF sample_readings(4) sample_threshold_fields(1,2)
        sample_readings(5) sample_threshold_fields(3,4) sample_readings(6)
        sample_threshold_fields(5,6), of "\<lambda>s. None", unfolded Let_def]
  note out = evaluate_strictly_outside [OF sample_readings(7) sample_threshold_fields(1,2)
        sample_readings(8) sample_threshold_fields(3,4) sample_readings(9)
        sample_threshold_fields(5,6), of "\<lambda>s. None", unfolded Let_def]
  have a: "evaluate (\<lambda>s. None) on_bounds sample_threshold = []"
    using bounds [THEN conjunct1] by simp
  have b: "evaluate (\<lambda>s. None) low_water sample_threshold =
       [[Lit ([CHR 0xE2, CHR 0x80, CHR 0x9A, CHR 0xC3, CHR 0xB6, CHR 0xE2, CHR 0x80, CHR 0xA0,
                 CHR 0xC3, CHR 0x94, CHR 0xE2, CHR 0x88, CHR 0x8F, CHR 0xC3, CHR 0xA8] @ '' Water Level: ''),
         Sub (JNum 5), Lit '' (Range: '', Sub (JNum 10), Lit ''-'', Sub (JNum 50), Lit '')'']]"
    using low [THEN conjunct1] by simp
  have c: "evaluate (\<lambda>s. None) all_out sample_threshold =
       [[Lit ([CHR 0xE2, CHR 0x80, CHR 0x9A, CHR 0xC3, CHR 0xB6, CHR 0xE2, CHR 0x80, CHR 0xA0,
                 CHR 0xC3, CHR 0x94, CHR 0xE2, CHR 0x88, CHR 0x8F, CHR 0xC3, CHR 0xA8] @ '' Water Level: ''),
         Sub (JNum 51), Lit '' (Range: '', Sub (JNum 10), Lit ''-'', Sub (JNum 50), Lit '')''],
        [Lit ([CHR 0xE2, CHR 0x80, CHR 0x9A, CHR 0xC3, CHR 0xB6, CHR 0xE2, CHR 0x80, CHR 0xA0,
                 CHR 0xC3, CHR 0x94, CHR 0xE2, CHR 0x88, CHR 0x8F, CHR 0xC3, CHR 0xA8] @ '' Temperature: ''),
         Sub (JNum 19), Lit ([CHR 0xC2, CHR 0xAC, CHR 0xE2, CHR 0x88, CHR 0x9E] @ ''C (Range: ''), Sub (JNum 20), Lit ''-'', Sub (JNum 32),
         Lit ([CHR 0xC2, CHR 0xAC, CHR 0xE2, CHR 0x88, CHR 0x9E] @ ''C)'')],
        [Lit ([CHR 0xE2, CHR 0x80, CHR 0x9A, CHR 0xC3, CHR 0xB6, CHR 0xE2, CHR 0x80, CHR 0xA0,
                 CHR 0xC3, CHR 0x94, CHR 0xE2, CHR 0x88, CHR 0x8F, CHR 0xC3, CHR 0xA8] @ '' TDS: ''),
         Sub (JNum 501), Lit '' (Range: '', Sub (JNum 0), Lit ''-'', Sub (JNum 500), Lit '')'']]"
    using out [THEN conjunct1] by simp
  have d: "\<not> list_ex (\<lambda>m. take 1 m = [Lit ([CHR 0xE2, CHR 0x80, CHR 0x9A, CHR 0xC3, CHR 0xB6, CHR 0xE2, CHR 0x80, CHR 0xA0,
                 CHR 0xC3, CHR 0x94, CHR 0xE2, CHR 0x88, CHR 0x8F, CHR 0xC3, CHR 0xA8] @ '' Water Level: '')])
         (evaluate (\<lambda>s. None) on_bounds sample_threshold)"
    using bounds [THEN conjunct2, THEN conjunct2, THEN conjunct2, THEN conjunct2, THEN conjunct1]
    by simp
  show ?thesis using a b c d by blast
qed

lemma js_get_cong: "map_of obj' = map_of obj \<Longrightarrow> js_get obj' k = js_get obj k"
  by (simp add: js_get_def)

text \<open>
  C3. The alerts of one evaluation are always a subsequence of the water level message,
  the temperature message and the TDS message, in that order; when all three readings
  are outside their bounds the result is exactly these three messages in that order. The
  order in which the reply or the threshold row lists its properties does not matter:
  two objects with the same properties give the same alerts.
\<close>

theorem evaluate_fixed_order:
  "let wl = js_get espData ''waterLevelInside''; wlo = js_get threshold ''min_water_level'';
       whi = js_get threshold ''max_water_level'';
       t = js_get espData ''waterTemp''; tlo = js_get threshold ''min_temperature'';
       thi = js_get threshold ''max_temperature'';
       d = js_get espData ''tds''; dlo = js_get threshold ''min_tds'';
       dhi = js_get threshold ''max_tds''
   in subseq (evaluate S espData threshold)
        [water_level_alert wl wlo whi, temperature_alert t tlo thi, tds_alert d dlo dhi]
    \<and> ((js_lt S wl wlo \<or> js_gt S wl whi) \<and> (js_lt S t tlo \<or> js_gt S t thi) \<and>
        (js_lt S d dlo \<or> js_gt S d dhi) \<longrightarrow>
        evaluate S espData threshold =
          [water_level_alert wl wlo whi, temperature_alert t tlo thi, tds_alert d dlo dhi])
    \<and> (map_of espData' = map_of espData \<and> map_of threshold' = map_of threshold \<longrightarrow>
        evaluate S espData' threshold' = evaluate S espData threshold)"
proof -
  have order: "subseq (evaluate S espData threshold)
        [water_level_alert (js_get espData ''waterLevelInside'')
           (js_get threshold ''min_water_level'') (js_get threshold ''max_water_level''),
         temperature_alert (js_get espData ''waterTemp'')
           (js_get threshold ''min_temperature'') (js_get threshold ''max_temperature''),
         tds_alert (js_get espData ''tds'') (js_get threshold ''min_tds'')
           (js_get threshold ''max_tds'')]"
    unfolding evaluate_parts by simp
  have exact: "evaluate S espData threshold =
        [water_level_alert (js_get espData ''waterLevelInside'')
           (js_get threshold ''min_water_level'') (js_get threshold ''max_water_level''),
         temperature_alert (js_get espData ''waterTemp'')
           (js_get threshold ''min_temperature'') (js_get threshold ''max_temperature''),
         tds_alert (js_get espData ''tds'') (js_get threshold ''min_tds'')
           (js_get threshold ''max_tds'')]"
    if "js_lt S (js_get espData ''waterLevelInside'') (js_get threshold ''min_water_level'') \<or>
        js_gt S (js_get espData ''waterLevelInside'') (js_get threshold ''max_water_level'')"
      and "js_lt S (js_get espData ''waterTemp'') (js_get threshold ''min_temperature'') \<or>
        js_gt S (js_get espData ''waterTemp'') (js_get threshold ''max_temperature'')"
      and "js_lt S (js_get espData ''tds'') (js_get threshold ''min_tds'') \<or>
        js_gt S (js_get espData ''tds'') (js_get threshold ''max_tds'')"
    unfolding evaluate_parts using that by simp
  have same: "evaluate S espData' threshold' = evaluate S espData threshold"
    if "map_of espData' = map_of espData" and "map_of threshold' = map_of threshold"
    unfolding evaluate_parts js_get_cong [OF that(1)] js_get_cong [OF that(2)] by (rule refl)
  show ?thesis
    unfolding Let_def using order exact same by blast
qed

theorem evaluate_fixed_order_witness:
  "evaluate (\<lambda>s. None) all_out sample_threshold =
     [water_level_alert (JNum 51) (JNum 10) (JNum 50),
      temperature_alert (JNum 19) (JNum 20) (JNum 32),
      tds_alert (JNum 501) (JNum 0) (JNum 500)]
   \<and> evaluate (\<lambda>s. None) (rev all_out) (rev sample_threshold) =
       evaluate (\<lambda>s. None) all_out sample_threshold"
proof -
  note inst = evaluate_fixed_order [of all_out sample_threshold "\<lambda>s. None" "rev all_out"
      "rev sample_threshold", unfolded Let_def sample_readings sample_threshold_fields]
  have a: "evaluate (\<lambda>s. None) all_out sample_threshold =
     [water_level_alert (JNum 51) (JNum 10) (JNum 50),
      temperature_alert (JNum 19) (JNum 20) (JNum 32),
      tds_alert (JNum 501) (JNum 0) (JNum 500)]"
    using inst [THEN conjunct2, THEN conjunct1] by (simp add: js_lt_num js_gt_num)
  have m1: "map_of (rev all_out) = map_of all_out"
    by (rule ext) (simp add: all_out_def)
  have m2: "map_of (rev sample_threshold) = map_of sample_threshold"
    by (rule ext) (simp add: sample_threshold_def)
  have b: "evaluate (\<lambda>s. None) (rev all_out) (rev sample_threshold) =
       evaluate (\<lambda>s. None) all_out sample_threshold"
    using inst [THEN conjunct2, THEN conjunct2] m1 m2 by simp
  show ?thesis using a b by simp
qed

subsection \<open>Acknowledging\<close>

lemma filter_not_exists:
  "\<not> list_ex (\<lambda>rem. feeding_ID rem = fid) reminders \<Longrightarrow>
   filter (\<lambda>rem. feeding_ID rem \<noteq> fid) reminders = reminders"
  by (induction reminders) auto

lemma acknowledge_truthy:
  "truthy (js_get req_body ''feeding_ID'') \<Longrightarrow>
   acknowledge req_body reminders =
     (filter (\<lambda>rem. feeding_ID rem \<noteq> js_get req_body ''feeding_ID'') reminders,
      \<lparr> status = 200,
        body = [(''success'', BVal (JBool True)),
                (''message'', BText [Lit ''Reminder '', Sub (js_get req_body ''feeding_ID''),
                                     Lit '' acknowledged''])] \<rparr>)"
  by (simp add: acknowledge_def Let_def strict_eq_iff)

text \<open>
  C4, as the code has it. An acknowledgment that carries an identifier removes every
  reminder with that identifier and always answers with status 200 and
  \<open>success: true\<close>, whether or not a reminder was removed. When no live reminder has
  the identifier the list is unchanged and the request is not an error. A second
  acknowledgment of the same identifier changes nothing and gets the same answer as the
  first: the two answers are (true, true).
\<close>

theorem acknowledge_always_success:
  assumes "truthy (js_get req_body ''feeding_ID'')"
  shows "let fid = js_get req_body ''feeding_ID'';
             first = acknowledge req_body reminders;
             second = acknowledge req_body (fst first)
         in fst first = filter (\<lambda>rem. feeding_ID rem \<noteq> fid) reminders
          \<and> status (snd first) = 200
          \<and> map_of (body (snd first)) ''success'' = Some (BVal (JBool True))
          \<and> (\<not> list_ex (\<lambda>rem. feeding_ID rem = fid) reminders \<longrightarrow> fst first = reminders)
          \<and> fst second = fst first
          \<and> snd second = snd first"
  unfolding Let_def acknowledge_truthy [OF assms]
  by (simp add: filter_not_exists)

theorem acknowledge_always_success_witness:
  "acknowledge [(''feeding_ID'', JNum 7)] [new_reminder ''13:50:00'' sample_row] =
     ([], \<lparr> status = 200,
            body = [(''success'', BVal (JBool True)),
                    (''message'', BText [Lit ''Reminder '', Sub (JNum 7), Lit '' acknowledged''])] \<rparr>)
   \<and> fst (acknowledge [(''feeding_ID'', JNum 8)] [new_reminder ''13:50:00'' sample_row]) =
       [new_reminder ''13:50:00'' sample_row]
   \<and> map_of (body (snd (acknowledge [(''feeding_ID'', JNum 8)] [new_reminder ''13:50:00'' sample_row])))
       ''success'' = Some (BVal (JBool True))"
proof -
  have t7: "truthy (js_get [(''feeding_ID'', JNum 7)] ''feeding_ID'')"
    and t8: "truthy (js_get [(''feeding_ID'', JNum 8)] ''feeding_ID'')"
    by (simp_all add: js_get_def)
  have a: "acknowledge [(''feeding_ID'', JNum 7)] [new_reminder ''13:50:00'' sample_row] =
     ([], \<lparr> status = 200,
            body = [(''success'', BVal (JBool True)),
                    (''message'', BText [Lit ''Reminder '', Sub (JNum 7), Lit '' acknowledged''])] \<rparr>)"
    using acknowledge_always_success [OF t7, of "[new_reminder ''13:50:00'' sample_row]"]
    by (simp add: Let_def acknowledge_truthy js_get_def new_reminder_def sample_row_def)
  have b: "fst (acknowledge [(''feeding_ID'', JNum 8)] [new_reminder ''13:50:00'' sample_row]) =
       [new_reminder ''13:50:00'' sample_row]
     \<and> map_of (body (snd (acknowledge [(''feeding_ID'', JNum 8)] [new_reminder ''13:50:00'' sample_row])))
       ''success'' = Some (BVal (JBool True))"
    using acknowledge_always_success [OF t8, of "[new_reminder ''13:50:00'' sample_row]"]
    by (simp add: Let_def js_get_def new_reminder_def sample_row_def)
  show ?thesis using a b by simp
qed

text \<open>
  The claim as stated fails: acknowledging identifier 7 when there is no reminder at all
  is answered with \<open>success: true\<close>, and so is the second of two acknowledgments in a
  row.
\<close>

theorem acknowledge_unknown_counterexample:
  "map_of (body (snd (acknowledge [(''feeding_ID'', JNum 7)] []))) ''success''
     = Some (BVal (JBool True))
   \<and> map_of (body (snd (acknowledge [(''feeding_ID'', JNum 7)]
        (fst (acknowledge [(''feeding_ID'', JNum 7)] [new_reminder ''13:50:00'' sample_row])))))
        ''success'' = Some (BVal (JBool True))"
  by (simp add: acknowledge_def js_get_def Let_def)

text \<open>
  C10. A request whose body has no \<open>feeding_ID\<close>, or an empty one (or any other value
  that counts as false: \<open>null\<close>, \<open>false\<close>, \<open>0\<close>), is answered with status 400 and the
  error text, and the reminders are exactly what they were.
\<close>

theorem acknowledge_without_id_rejected:
  assumes "\<not> truthy (js_get req_body ''feeding_ID'')"
  shows "acknowledge req_body reminders =
           (reminders,
            \<lparr> status = 400, body = [(''error'', BVal (JStr ''feeding_ID is required''))] \<rparr>)"
  using assms by (simp add: acknowledge_def Let_def)

theorem acknowledge_without_id_rejected_witness:
  "acknowledge [] [new_reminder ''13:50:00'' sample_row] =
     ([new_reminder ''13:50:00'' sample_row],
      \<lparr> status = 400, body = [(''error'', BVal (JStr ''feeding_ID is required''))] \<rparr>)
   \<and> acknowledge [(''feeding_ID'', JStr [])] [new_reminder ''13:50:00'' sample_row] =
     ([new_reminder ''13:50:00'' sample_row],
      \<lparr> status = 400, body = [(''error'', BVal (JStr ''feeding_ID is required''))] \<rparr>)"
proof -
  have missing: "\<not> truthy (js_get [] ''feeding_ID'')"
    and empty: "\<not> truthy (js_get [(''feeding_ID'', JStr [])] ''feeding_ID'')"
    by (simp_all add: js_get_def)
  show ?thesis
    using acknowledge_without_id_rejected [OF missing]
      acknowledge_without_id_rejected [OF empty]
    by simp
qed


subsection \<open>The condition check\<close>

lemma fetch_reply_ok:
  "t < FETCH_TIMEOUT_MS \<Longrightarrow> response_ok st \<Longrightarrow>
   fetchSensorDataFromESP ip (Reply t st (Arrives dt txt (Some v))) =
     \<lparr> outcome = Some (Inr v), effects = [HttpGet (''http://'' @ ip @ ''/sensors'')],
       settled_at = Some (t + dt) \<rparr>"
  by (simp add: fetchSensorDataFromESP_def Let_def)

lemma check_no_thresholds:
  "outcome (fetchSensorDataFromESP (esp_ip w) (esp_answer w)) = Some (Inr (JsonObject espData)) \<Longrightarrow>
   db w thresholds_sql [] = Inr [] \<Longrightarrow>
   checkConditionsAndSendAlert w =
     effects (fetchSensorDataFromESP (esp_ip w) (esp_answer w)) @
     [DbQuery thresholds_sql [], ConsoleError ''[Alerts] No threshold configuration found'']"
  by (simp add: checkConditionsAndSendAlert_def Let_def)

lemma check_all_clear:
  "outcome (fetchSensorDataFromESP (esp_ip w) (esp_answer w)) = Some (Inr (JsonObject espData)) \<Longrightarrow>
   db w thresholds_sql [] = Inr (threshold # rest) \<Longrightarrow>
   evaluate (string_to_number w) espData threshold = [] \<Longrightarrow>
   checkConditionsAndSendAlert w =
     effects (fetchSensorDataFromESP (esp_ip w) (esp_answer w)) @
     [DbQuery thresholds_sql [], ConsoleLog ''[Alerts] All pond conditions are normal'']"
  by (simp add: checkConditionsAndSendAlert_def Let_def)

lemma check_dispatches:
  "outcome (fetchSensorDataFromESP (esp_ip w) (esp_answer w)) = Some (Inr (JsonObject espData)) \<Longrightarrow>
   db w thresholds_sql [] = Inr (threshold # rest) \<Longrightarrow>
   evaluate (string_to_number w) espData threshold \<noteq> [] \<Longrightarrow>
   dispatch_alerts w (evaluate (string_to_number w) espData threshold) = (None, fx) \<Longrightarrow>
   checkConditionsAndSendAlert w =
     effects (fetchSensorDataFromESP (esp_ip w) (esp_answer w)) @ [DbQuery thresholds_sql []] @ fx"
  by (simp add: checkConditionsAndSendAlert_def Let_def)

lemma no_water_level_alert:
  assumes "js_get espData ''waterLevelInside'' = JUndefined"
  shows "water_level_alert v lo hi \<notin> set (evaluate S espData threshold)"
  unfolding evaluate_parts assms by (simp add: js_lt_undefined js_gt_undefined alerts_distinct)

lemma no_temperature_alert:
  assumes "js_get espData ''waterTemp'' = JUndefined"
  shows "temperature_alert v lo hi \<notin> set (evaluate S espData threshold)"
  unfolding evaluate_parts assms by (simp add: js_lt_undefined js_gt_undefined alerts_distinct)

lemma no_tds_alert:
  assumes "js_get espData ''tds'' = JUndefined"
  shows "tds_alert v lo hi \<notin> set (evaluate S espData threshold)"
  unfolding evaluate_parts assms by (simp add: js_lt_undefined js_gt_undefined alerts_distinct)

lemma sample_world_fields:
  "esp_ip (sample_world d) = ''192.168.1.127''"
  "esp_answer (sample_world d) = Reply 120 200 (Arrives 5 [] (Some (JsonObject d)))"
  "db (sample_world d) = sample_store"
  "string_to_number (sample_world d) = (\<lambda>s. None)"
  "mail_failure (sample_world d) = Some ''ECONNREFUSED''"
  "mail_answers_first (sample_world d) = False"
  "fcm_server_key (sample_world d) = JStr ''key''"
  "fcm_answer (sample_world d) = PushRejected ''fetch failed''"
  "email_user (sample_world d) = JStr ''pond@example.org''"
  by (simp_all add: sample_world_def)

lemma sample_fetch:
  "fetchSensorDataFromESP ''192.168.1.127'' (Reply 120 200 (Arrives 5 [] (Some v))) =
     \<lparr> outcome = Some (Inr v), effects = [HttpGet ''http://192.168.1.127/sensors''],
       settled_at = Some 125 \<rparr>"
  by (simp add: fetch_reply_ok FETCH_TIMEOUT_MS_def response_ok_def)

lemma sample_store_thresholds: "sample_store thresholds_sql [] = Inr [sample_threshold]"
  by (simp add: sample_store_def)

lemma sample_store_workers:
  "sample_store worker_sql [] = Inr [[(''email'', JStr ''worker@example.org'')]]"
  by (simp add: sample_store_def thresholds_sql_def worker_sql_def)

lemma no_water_level_readings:
  "js_get no_water_level ''waterLevelInside'' = JUndefined"
  "js_get no_water_level ''waterTemp'' = JNum 26"
  "js_get no_water_level ''tds'' = JNum 300"
  by (simp_all add: no_water_level_def js_get_def)

lemma evaluate_no_water_level: "evaluate S no_water_level sample_threshold = []"
  unfolding evaluate_parts no_water_level_readings sample_threshold_fields
  by (simp add: js_lt_undefined js_gt_undefined js_lt_num js_gt_num)

text \<open>
  C5, as the code has it. When the reply was fetched and the store has no threshold row,
  the check logs that no threshold configuration was found and ends there: nothing is
  evaluated or sent, and the all-clear message is not logged. The readings themselves
  are not validated: a reading that is missing from the reply compares false with both
  of its bounds, so the evaluation has no alert for that metric. The check returns
  nothing to its caller in any case; the manual trigger, once the check is over, answers
  "triggered".
\<close>

theorem absent_thresholds_logged:
  assumes "outcome (fetchSensorDataFromESP (esp_ip w) (esp_answer w)) = Some (Inr (JsonObject espData))"
  shows "(db w thresholds_sql [] = Inr [] \<longrightarrow>
            checkConditionsAndSendAlert w =
              effects (fetchSensorDataFromESP (esp_ip w) (esp_answer w)) @
              [DbQuery thresholds_sql [],
               ConsoleError ''[Alerts] No threshold configuration found''])
       \<and> (js_get espData ''waterLevelInside'' = JUndefined \<longrightarrow>
            water_level_alert v lo hi \<notin> set (evaluate S espData threshold))
       \<and> (js_get espData ''waterTemp'' = JUndefined \<longrightarrow>
            temperature_alert v lo hi \<notin> set (evaluate S espData threshold))
       \<and> (js_get espData ''tds'' = JUndefined \<longrightarrow>
            tds_alert v lo hi \<notin> set (evaluate S espData threshold))
       \<and> snd (test_push w) =
           Some \<lparr> status = 200, body = [(''status'', BVal (JStr ''triggered''))] \<rparr>"
proof -
  have "snd (test_push w) =
          Some \<lparr> status = 200, body = [(''status'', BVal (JStr ''triggered''))] \<rparr>"
    by (simp add: test_push_def assms)
  then show ?thesis
    using check_no_thresholds [OF assms] no_water_level_alert no_temperature_alert no_tds_alert
    by blast
qed

theorem absent_thresholds_logged_witness:
  "checkConditionsAndSendAlert ((sample_world no_water_level) \<lparr> db := empty_store \<rparr>) =
     [HttpGet ''http://192.168.1.127/sensors'', DbQuery thresholds_sql [],
      ConsoleError ''[Alerts] No threshold configuration found'']
   \<and> water_level_alert JUndefined (JNum 10) (JNum 50) \<notin>
       set (evaluate (\<lambda>s. None) no_water_level sample_threshold)"
proof -
  let ?w = "(sample_world no_water_level) \<lparr> db := empty_store \<rparr>"
  have f: "fetchSensorDataFromESP (esp_ip ?w) (esp_answer ?w) =
     \<lparr> outcome = Some (Inr (JsonObject no_water_level)),
       effects = [HttpGet ''http://192.168.1.127/sensors''], settled_at = Some 125 \<rparr>"
    by (simp add: sample_world_fields sample_fetch)
  then have ok: "outcome (fetchSensorDataFromESP (esp_ip ?w) (esp_answer ?w)) =
      Some (Inr (JsonObject no_water_level))"
    by simp
  have none: "db ?w thresholds_sql [] = Inr []"
    by (simp add: empty_store_def)
  note inst = absent_thresholds_logged [OF ok, of JUndefined "JNum 10" "JNum 50" "\<lambda>s. None"
      sample_threshold]
  have a: "checkConditionsAndSendAlert ?w =
     [HttpGet ''http://192.168.1.127/sensors'', DbQuery thresholds_sql [],
      ConsoleError ''[Alerts] No threshold configuration found'']"
    using inst [THEN conjunct1] none f by simp
  have b: "water_level_alert JUndefined (JNum 10) (JNum 50) \<notin>
       set (evaluate (\<lambda>s. None) no_water_level sample_threshold)"
    using inst [THEN conjunct2, THEN conjunct1] no_water_level_readings(1) by blast
  show ?thesis using a b by blast
qed

text \<open>
  The claim as stated fails: with the water level missing from the reply and the other
  two readings inside their bounds, the check logs that all pond conditions are normal;
  no error is logged and the manual trigger answers "triggered".
\<close>

theorem missing_reading_all_clear_counterexample:
  "js_get no_water_level ''waterLevelInside'' = JUndefined
   \<and> test_push (sample_world no_water_level) =
       ([HttpGet ''http://192.168.1.127/sensors'', DbQuery thresholds_sql [],
         ConsoleLog ''[Alerts] All pond conditions are normal''],
        Some \<lparr> status = 200, body = [(''status'', BVal (JStr ''triggered''))] \<rparr>)"
proof -
  let ?w = "sample_world no_water_level"
  have f: "fetchSensorDataFromESP (esp_ip ?w) (esp_answer ?w) =
     \<lparr> outcome = Some (Inr (JsonObject no_water_level)),
       effects = [HttpGet ''http://192.168.1.127/sensors''], settled_at = Some 125 \<rparr>"
    by (simp add: sample_world_fields sample_fetch)
  then have ok: "outcome (fetchSensorDataFromESP (esp_ip ?w) (esp_answer ?w)) =
      Some (Inr (JsonObject no_water_level))"
    by simp
  have thr: "db ?w thresholds_sql [] = Inr (sample_threshold # [])"
    by (simp add: sample_world_fields sample_store_thresholds)
  have ev: "evaluate (string_to_number ?w) no_water_level sample_threshold = []"
    by (rule evaluate_no_water_level)
  have "checkConditionsAndSendAlert ?w =
       [HttpGet ''http://192.168.1.127/sensors'', DbQuery thresholds_sql [],
         ConsoleLog ''[Alerts] All pond conditions are normal'']"
    using check_all_clear [OF ok thr ev] f by simp
  then show ?thesis
    by (simp add: test_push_def no_water_level_readings ok)
qed


subsection \<open>Delivery channels\<close>

lemma attempted_Nil: "attempted [] = []"
  by (simp add: attempted_def List.map_filter_simps)

lemma attempted_Cons:
  "attempted (x # xs) =
     (case channel_of x of None \<Rightarrow> attempted xs | Some c \<Rightarrow> c # attempted xs)"
  by (simp add: attempted_def List.map_filter_simps split: option.splits)

lemma attempted_sendFeedingPush:
  "attempted (sendFeedingPush pw r) = (if admin_initialized pw then [MobilePush] else [])"
  by (simp add: sendFeedingPush_def attempted_def List.map_filter_simps)

lemma attempted_sendAlertEmails:
  "attempted (sendAlertEmails w alerts workerEmails) = [Email]"
  by (simp add: sendAlertEmails_def attempted_def List.map_filter_simps)

lemma attempted_sendMail_callback: "attempted (sendMail_callback w) = []"
  by (simp add: sendMail_callback_def attempted_def List.map_filter_simps split: option.splits)

lemma attempted_take_drop: "attempted (take n xs) @ attempted (drop n xs) = attempted xs"
  by (simp add: attempted_def List.map_filter_def flip: map_append filter_append)

lemma attempted_sendPush:
  "attempted (sendPushNotificationFCM w alerts) =
     (if truthy (fcm_server_key w) then [MobilePush] else [])"
  by (simp add: sendPushNotificationFCM_def attempted_def List.map_filter_simps
      split: push_reply.splits)

lemma attempted_append: "attempted (xs @ ys) = attempted xs @ attempted ys"
  by (simp add: attempted_def List.map_filter_def)

lemma attempted_dispatch_reminder:
  "attempted (dispatch_reminder pw r) =
     Realtime # (if admin_initialized pw then [MobilePush] else [])"
proof -
  have "attempted (dispatch_reminder pw r) = Realtime # attempted (sendFeedingPush pw r)"
    by (simp add: dispatch_reminder_def attempted_Cons)
  then show ?thesis
    by (simp add: attempted_sendFeedingPush)
qed

lemma dispatch_alerts_ok:
  assumes "db w worker_sql [] = Inr workerResults"
  shows "fst (dispatch_alerts w alerts) = None"
    and "attempted (snd (dispatch_alerts w alerts)) =
           (if workerResults = [] then [] else [Email]) @
           (if truthy (fcm_server_key w) then [MobilePush] else [])"
proof -
  let ?push = "sendPushNotificationFCM w alerts"
  let ?mail = "sendAlertEmails w alerts (map (\<lambda>row. js_get row ''email'') workerResults)"
  show "fst (dispatch_alerts w alerts) = None"
    by (simp add: dispatch_alerts_def assms Let_def)
  have tr: "snd (dispatch_alerts w alerts) =
          [DbQuery worker_sql []] @
          (if workerResults = [] then [ConsoleError ''[Alerts] No worker emails found''] @ ?push
           else ?mail @
                (if mail_answers_first w
                 then take 1 ?push @ sendMail_callback w @ drop 1 ?push
                 else ?push @ sendMail_callback w))"
    by (simp add: dispatch_alerts_def assms Let_def)
  have later: "attempted (if mail_answers_first w
                 then take 1 ?push @ sendMail_callback w @ drop 1 ?push
                 else ?push @ sendMail_callback w) = attempted ?push"
    by (simp add: attempted_append attempted_sendMail_callback attempted_take_drop)
  show "attempted (snd (dispatch_alerts w alerts)) =
           (if workerResults = [] then [] else [Email]) @
           (if truthy (fcm_server_key w) then [MobilePush] else [])"
    unfolding tr attempted_append
    by (simp add: later attempted_append attempted_Cons attempted_Nil attempted_sendAlertEmails
        attempted_sendPush)
qed

text \<open>
  C6, as the code has it. A new reminder is broadcast on the realtime channel and then
  pushed, the push being skipped when Firebase Admin has no app. A non-empty alert set,
  once the workers' addresses are read, is mailed unless there is no address and then
  pushed, the push being skipped when no server key is set. Which channels are attempted
  depends on nothing else: neither on what the mail transport answers nor on what the
  push service answers. A failed mail or push is logged and nothing is thrown out of the
  dispatch. Reminders are never mailed, alerts are never broadcast, and no report is
  built.
\<close>

theorem dispatch_attempts:
  "attempted (dispatch_reminder pw r) =
     Realtime # (if admin_initialized pw then [MobilePush] else [])
   \<and> attempted (dispatch_reminder (pw \<lparr> admin_send := f \<rparr>) r) =
       attempted (dispatch_reminder pw r)
   \<and> (db w worker_sql [] = Inr workerResults \<longrightarrow>
        fst (dispatch_alerts w alerts) = None
      \<and> attempted (snd (dispatch_alerts w alerts)) =
          (if workerResults = [] then [] else [Email]) @
          (if truthy (fcm_server_key w) then [MobilePush] else [])
      \<and> attempted (snd (dispatch_alerts (w \<lparr> mail_failure := mf, fcm_answer := fa \<rparr>) alerts)) =
          attempted (snd (dispatch_alerts w alerts)))"
proof -
  have a: "attempted (dispatch_reminder (pw \<lparr> admin_send := f \<rparr>) r) =
       attempted (dispatch_reminder pw r)"
    by (simp add: attempted_dispatch_reminder)
  have b: "attempted (snd (dispatch_alerts (w \<lparr> mail_failure := mf, fcm_answer := fa \<rparr>) alerts)) =
          attempted (snd (dispatch_alerts w alerts))"
    if ok: "db w worker_sql [] = Inr workerResults"
  proof -
    have "db (w \<lparr> mail_failure := mf, fcm_answer := fa \<rparr>) worker_sql [] = Inr workerResults"
      using ok by simp
    from dispatch_alerts_ok(2) [OF this] dispatch_alerts_ok(2) [OF ok]
    show ?thesis by simp
  qed
  show ?thesis
    using attempted_dispatch_reminder a b dispatch_alerts_ok by blast
qed

lemma low_water_alerts:
  "evaluate S low_water sample_threshold = [water_level_alert (JNum 5) (JNum 10) (JNum 50)]"
  unfolding evaluate_parts sample_readings sample_threshold_fields
  by (simp add: js_lt_num js_gt_num)

theorem dispatch_attempts_witness:
  "attempted (dispatch_reminder sample_push_world (new_reminder ''13:50:00'' sample_row)) =
     [Realtime, MobilePush]
   \<and> dispatch_alerts (sample_world low_water) [water_level_alert (JNum 5) (JNum 10) (JNum 50)] =
       (None,
        [DbQuery worker_sql [],
         SendMail \<lparr> mail_from = JStr ''pond@example.org'',
                    mail_to = [JStr ''worker@example.org''],
                    mail_subject = siren_sign @ '' Pond Condition Alert'',
                    mail_text = [water_level_alert (JNum 5) (JNum 10) (JNum 50)] \<rparr>,
         HttpPost ''https://fcm.googleapis.com/fcm/send''
           \<lparr> push_to = ''/topics/all'', push_title = siren_sign @ '' Pond Condition Alert'',
             push_body = [water_level_alert (JNum 5) (JNum 10) (JNum 50)],
             push_data_alerts = [water_level_alert (JNum 5) (JNum 10) (JNum 50)] \<rparr>,
         ConsoleError ''[FCM] Error sending push:'',
         ConsoleError ''[Email] Failed to send alert:''])
   \<and> attempted (snd (dispatch_alerts (sample_world low_water)
         [water_level_alert (JNum 5) (JNum 10) (JNum 50)])) = [Email, MobilePush]"
proof -
  let ?alerts = "[water_level_alert (JNum 5) (JNum 10) (JNum 50)]"
  have workers: "db (sample_world low_water) worker_sql [] =
      Inr [[(''email'', JStr ''worker@example.org'')]]"
    by (simp add: sample_world_fields sample_store_workers)
  note inst = dispatch_attempts [where pw = sample_push_world
      and r = "new_reminder ''13:50:00'' sample_row" and f = "admin_send sample_push_world"
      and w = "sample_world low_water"
      and workerResults = "[[(''email'', JStr ''worker@example.org'')]]" and alerts = ?alerts
      and mf = "mail_failure (sample_world low_water)"
      and fa = "fcm_answer (sample_world low_water)"]
  have a: "attempted (dispatch_reminder sample_push_world (new_reminder ''13:50:00'' sample_row)) =
     [Realtime, MobilePush]"
    using inst [THEN conjunct1] by (simp add: sample_push_world_def)
  have c: "attempted (snd (dispatch_alerts (sample_world low_water) ?alerts)) = [Email, MobilePush]"
    using inst [THEN conjunct2, THEN conjunct2] workers by (simp add: sample_world_fields)
  have b: "dispatch_alerts (sample_world low_water) ?alerts =
       (None,
        [DbQuery worker_sql [],
         SendMail \<lparr> mail_from = JStr ''pond@example.org'',
                    mail_to = [JStr ''worker@example.org''],
                    mail_subject = siren_sign @ '' Pond Condition Alert'',
                    mail_text = ?alerts \<rparr>,
         HttpPost ''https://fcm.googleapis.com/fcm/send''
           \<lparr> push_to = ''/topics/all'', push_title = siren_sign @ '' Pond Condition Alert'',
             push_body = ?alerts, push_data_alerts = ?alerts \<rparr>,
         ConsoleError ''[FCM] Error sending push:'',
         ConsoleError ''[Email] Failed to send alert:''])"
    by (simp add: dispatch_alerts_def sample_store_workers Let_def sendAlertEmails_def
        sendMail_callback_def sendPushNotificationFCM_def sample_world_fields js_get_def)
  show ?thesis using a b c by blast
qed

text \<open>
  The claim as stated fails: a reminder is not mailed, and an alert set is not broadcast
  on the realtime channel. Here the water level is 5 under a minimum of 10, the mail
  transport and the push service both fail, and the trigger's whole check attempts the
  mail and the push only.
\<close>

theorem not_all_channels_counterexample:
  "attempted (dispatch_reminder sample_push_world (new_reminder ''13:50:00'' sample_row)) =
     [Realtime, MobilePush]
   \<and> attempted (checkConditionsAndSendAlert (sample_world low_water)) = [Email, MobilePush]"
proof -
  let ?w = "sample_world low_water"
  let ?alerts = "[water_level_alert (JNum 5) (JNum 10) (JNum 50)]"
  have a: "attempted (dispatch_reminder sample_push_world (new_reminder ''13:50:00'' sample_row)) =
     [Realtime, MobilePush]"
    by (simp add: attempted_dispatch_reminder sample_push_world_def)
  have f: "fetchSensorDataFromESP (esp_ip ?w) (esp_answer ?w) =
     \<lparr> outcome = Some (Inr (JsonObject low_water)),
       effects = [HttpGet ''http://192.168.1.127/sensors''], settled_at = Some 125 \<rparr>"
    by (simp add: sample_world_fields sample_fetch)
  then have ok: "outcome (fetchSensorDataFromESP (esp_ip ?w) (esp_answer ?w)) =
      Some (Inr (JsonObject low_water))"
    by simp
  have thr: "db ?w thresholds_sql [] = Inr (sample_threshold # [])"
    by (simp add: sample_world_fields sample_store_thresholds)
  have ev: "evaluate (string_to_number ?w) low_water sample_threshold = ?alerts"
    by (rule low_water_alerts)
  then have ne: "evaluate (string_to_number ?w) low_water sample_threshold \<noteq> []"
    by simp
  have workers: "db ?w worker_sql [] = Inr [[(''email'', JStr ''worker@example.org'')]]"
    by (simp add: sample_world_fields sample_store_workers)
  have d: "dispatch_alerts ?w (evaluate (string_to_number ?w) low_water sample_threshold) =
      (None, snd (dispatch_alerts ?w (evaluate (string_to_number ?w) low_water sample_threshold)))"
    using dispatch_alerts_ok(1) [OF workers] by (metis prod.collapse)
  have "attempted (checkConditionsAndSendAlert ?w) =
      attempted [HttpGet ''http://192.168.1.127/sensors'', DbQuery thresholds_sql []] @
      attempted (snd (dispatch_alerts ?w (evaluate (string_to_number ?w) low_water sample_threshold)))"
    unfolding check_dispatches [OF ok thr ne d] f
    by (simp add: attempted_Cons attempted_Nil)
  also have "\<dots> = [Email, MobilePush]"
    unfolding dispatch_alerts_ok(2) [OF workers]
    by (simp add: sample_world_fields attempted_Cons attempted_Nil)
  finally show ?thesis using a by simp
qed


subsection \<open>The bounded fetch\<close>








subsection \<open>The archive\<close>

text \<open>
  C8 at the failing input: the controller's reply carries a pH of 7. The insert names
  five columns and has five placeholders, and the archival job binds four values to it:
  the pond, the water level, the temperature and the TDS. The pH is not among them,
  whatever the store then answers.
\<close>

theorem archive_binds_four_values:
  "take 2 (saveSensorsData ''192.168.1.127''
      (Reply 120 200 (Arrives 5 [] (Some (JsonObject with_pH)))) executeQuery) =
     [HttpGet ''http://192.168.1.127/sensors'',
      DbQuery insert_sql [JNum 1, JNum 30, JNum 26, JNum 300]]
   \<and> count_list insert_sql (CHR ''?'') = 5
   \<and> js_get with_pH ''pH'' = JNum 7"
proof -
  have "count_list insert_sql (CHR ''?'') = 5"
    by (simp add: insert_sql_def)
  moreover have "js_get with_pH ''pH'' = JNum 7"
    by (simp add: with_pH_def js_get_def)
  moreover have "take 2 (saveSensorsData ''192.168.1.127''
      (Reply 120 200 (Arrives 5 [] (Some (JsonObject with_pH)))) executeQuery) =
     [HttpGet ''http://192.168.1.127/sensors'',
      DbQuery insert_sql [JNum 1, JNum 30, JNum 26, JNum 300]]"
    by (simp add: saveSensorsData_def sample_fetch Let_def with_pH_def js_get_def)
  ultimately show ?thesis by blast
qed

subsection \<open>Connection errors\<close>

text \<open>
  C9, as the code has it. In the local module, an error whose code is
  \<open>PROTOCOL_CONNECTION_LOST\<close> or \<open>ECONNRESET\<close> makes the handler call \<open>connect\<close> once
  and throw nothing; any other error is thrown again unchanged and \<open>connect\<close> is not
  called. The deployed module does the same, with
  \<open>PROTOCOL_ENQUEUE_AFTER_FATAL_ERROR\<close> as a third code that reconnects.
\<close>

theorem on_error_reconnects:
  "let code = js_get err ''code'';
       lost = (code = JStr ''PROTOCOL_CONNECTION_LOST'' \<or> code = JStr ''ECONNRESET'');
       fatal = (code = JStr ''PROTOCOL_ENQUEUE_AFTER_FATAL_ERROR'')
   in count_list (fst (on_error_local err)) Connect = (if lost then 1 else 0)
    \<and> snd (on_error_local err) = (if lost then None else Some err)
    \<and> count_list (fst (on_error_deployed err)) Connect = (if lost \<or> fatal then 1 else 0)
    \<and> snd (on_error_deployed err) = (if lost \<or> fatal then None else Some err)"
  unfolding Let_def on_error_local_def on_error_deployed_def strict_eq_iff
  by simp

theorem on_error_reconnects_witness:
  "on_error_local [(''code'', JStr ''ECONNRESET'')] =
     ([ConsoleError ''Database connection error:'', ConsoleLog ''Attempting to reconnect...'',
       Connect], None)
   \<and> snd (on_error_deployed [(''code'', JStr ''ER_PARSE_ERROR'')]) =
       Some [(''code'', JStr ''ER_PARSE_ERROR'')]
   \<and> count_list (fst (on_error_deployed [(''code'', JStr ''ER_PARSE_ERROR'')])) Connect = 0"
proof -
  have a: "on_error_local [(''code'', JStr ''ECONNRESET'')] =
     ([ConsoleError ''Database connection error:'', ConsoleLog ''Attempting to reconnect...'',
       Connect], None)"
    by (simp add: on_error_local_def js_get_def)
  have b: "snd (on_error_deployed [(''code'', JStr ''ER_PARSE_ERROR'')]) =
       Some [(''code'', JStr ''ER_PARSE_ERROR'')]
     \<and> count_list (fst (on_error_deployed [(''code'', JStr ''ER_PARSE_ERROR'')])) Connect = 0"
    using on_error_reconnects [of "[(''code'', JStr ''ER_PARSE_ERROR'')]"]
    by (simp add: Let_def js_get_def)
  show ?thesis using a b by blast
qed

text \<open>
  The claim as stated fails in the deployed module: an error that is neither a lost nor
  a reset connection is not thrown again, and a reconnection is attempted.
\<close>

theorem enqueue_after_fatal_counterexample:
  "on_error_deployed [(''code'', JStr ''PROTOCOL_ENQUEUE_AFTER_FATAL_ERROR'')] =
     ([ConsoleError ''Database connection error:'', ConsoleLog ''Attempting to reconnect...'',
       Connect], None)"
  by (simp add: on_error_deployed_def js_get_def)


end
